theory Spec2Isabelle
  imports Complex_Main
begin

section \<open>Data model of the high-level controller\<close>

text \<open>
  The controller is the C++ class \<open>HighLevelControl\<close> of
  \<open>Packages/robot/src/high_level_control.cpp\<close>. Its \<open>double\<close> and \<open>float\<close> quantities
  (range readings, distances, velocities, target coordinates) are modelled as real numbers,
  and a comparison of the source is the same comparison on \<open>real\<close>. Infinities and NaN are
  outside the model. Rounding is modelled where a decision of the source rests on a sum of
  several rounded terms, the threshold of the mode switch in \<open>LaserCallback\<close>; elsewhere
  products and differences are the exact ones.
\<close>

text \<open>
  Modelled from the spec: the declaration of the enumeration \<open>TurnType\<close> lives in
  \<open>high_level_control.h\<close>, which is not among the sources. The source only shows that the
  enumerators are \<open>RIGHT\<close>, \<open>LEFT\<close> and \<open>NONE\<close> and that \<open>turn_type_ - 1\<close> is used as a
  factor of the angular velocity; the spec fixes that factor as \<open>+1\<close> for \<open>LEFT\<close>, \<open>0\<close> for
  \<open>NONE\<close> and \<open>-1\<close> for \<open>RIGHT\<close>, so the enumerators carry the integers 2, 1 and 0.
\<close>

datatype TurnType = RIGHT | NONE | LEFT

fun turn_code :: "TurnType \<Rightarrow> int" where
  "turn_code RIGHT = 0"
| "turn_code NONE = 1"
| "turn_code LEFT = 2"

text \<open>The structs of the header, with the fields the source reads and writes.\<close>

record Range =
  low_lim :: int
  high_lim :: int

record MoveSpecs =
  high_security_distance :: real
  low_security_distance :: real
  wall_follow_distance :: real
  linear_velocity :: real
  angular_velocity :: real
  right_range :: Range
  left_range :: Range
  center_range :: Range
  turn_type :: TurnType

record MoveStatus =
  can_continue :: bool
  is_close_to_wall :: bool
  is_following_wall :: bool

text \<open>A \<open>geometry_msgs::Twist\<close>, reduced to the two fields \<open>Move\<close> fills in.\<close>

record Twist =
  linear_x :: real
  angular_z :: real

text \<open>The incoming \<open>robot::circle_detect_msg\<close>.\<close>

record circle_detect_msg =
  ranges :: "real list"
  msg_circle_x :: real
  msg_circle_y :: real

text \<open>
  The object state. Two effects of the source are made part of it: \<open>cmd_vel\<close> is the
  sequence of messages published on the topic \<open>cmd_vel\<close> so far (oldest first), and
  \<open>shutdown_requested\<close> records that \<open>ros::shutdown()\<close> has been called. \<open>ros::shutdown()\<close>
  returns to its caller, so the code after the call still runs.
\<close>

record HighLevelControl =
  move_specs :: MoveSpecs
  move_status :: MoveStatus
  circle_x :: real
  circle_y :: real
  circle_hit_mode :: bool
  cmd_vel :: "Twist list"
  shutdown_requested :: bool

text \<open>
  What a cycle can run into instead of a result. \<open>UncheckedRead\<close> stands for
  \<open>ranges[i]\<close> with \<open>i\<close> outside the vector: \<open>std::vector::operator[]\<close> checks nothing, so the
  program has no defined behaviour from there on (it may read garbage or be killed); no
  error object exists and nothing catches it. \<open>InvalidWindow\<close> is the failure of the
  helper \<open>GetMin\<close> as the spec describes it.
\<close>

datatype fault = UncheckedRead | InvalidWindow

section \<open>Helpers\<close>

text \<open>\<open>#define PI 3.14159265\<close>\<close>

definition PI :: real where
  "PI = 314159265 / 100000000"

text \<open>\<open>ranges[i]\<close> on a \<open>std::vector<float>\<close>, the index an \<open>int\<close>.\<close>

definition subscript :: "real list \<Rightarrow> int \<Rightarrow> fault + real" where
  "subscript rs i =
     (if 0 \<le> i \<and> i < int (length rs) then Inr (rs ! nat i) else Inl UncheckedRead)"

text \<open>
  Modelled from the spec: the three-argument \<open>Min\<close> of \<open>util_functions.h\<close> is not among the
  sources. The spec reads the call \<open>Min(right, left, center)\<close> as the least of the three
  distances.
\<close>

definition Min3 :: "real \<Rightarrow> real \<Rightarrow> real \<Rightarrow> real" where
  "Min3 a b c = min a (min b c)"

text \<open>
  Modelled from the spec: \<open>GetMin\<close> of \<open>util_functions.h\<close> is not among the sources. The
  functions below take it as a parameter of this type, so that everything proved about them
  holds for whatever \<open>GetMin\<close> does; \<open>GetMin_spec\<close> is the instance the spec describes (the
  least reading of the inclusive index window, \<open>InvalidWindow\<close> when the window is empty or
  leaves the frame) and is used to run the model on concrete frames.
\<close>

type_synonym getmin = "real list \<Rightarrow> int \<Rightarrow> int \<Rightarrow> fault + real"

definition GetMin_spec :: getmin where
  "GetMin_spec rs lo hi =
     (if 0 \<le> lo \<and> lo \<le> hi \<and> hi < int (length rs)
      then (let w = take (nat (hi - lo + 1)) (drop (nat lo) rs) in Inr (fold min (tl w) (hd w)))
      else Inl InvalidWindow)"

subsection \<open>Floating-point arithmetic\<close>

text \<open>
  A binary floating-point format: the number of significant bits and the least and the
  greatest exponent of a normal number. \<open>float\<close> is \<open>binary32\<close> and \<open>double\<close> is
  \<open>binary64\<close>.
\<close>

record format =
  precision :: nat
  emin :: int
  emax :: int

definition binary32 :: format where
  "binary32 = \<lparr>precision = 24, emin = - 126, emax = 127\<rparr>"

definition binary64 :: format where
  "binary64 = \<lparr>precision = 53, emin = - 1022, emax = 1023\<rparr>"

text \<open>Rounding to the nearest integer, a tie to the even one.\<close>

definition rne :: "real \<Rightarrow> int" where
  "rne y =
     (let f = \<lfloor>y\<rfloor>; d = y - of_int f
      in if d < 1 / 2 then f else if d > 1 / 2 then f + 1 else if even f then f else f + 1)"

text \<open>
  The result of an arithmetic operation whose exact value is \<open>x\<close>, in the default rounding
  mode (to nearest, ties to even): \<open>x\<close> is rounded to a multiple of \<open>2\<^sup>q\<close>, where \<open>q\<close> is the
  exponent of the last significant bit (that of the subnormal numbers when \<open>x\<close> is below
  the normal range); a result beyond the greatest finite number is an infinity, \<open>None\<close>.
\<close>

definition fl :: "format \<Rightarrow> real \<Rightarrow> real option" where
  "fl fmt x =
     (if x = 0 then Some 0
      else
        (let q = max \<lfloor>log 2 \<bar>x\<bar>\<rfloor> (emin fmt) - int (precision fmt) + 1;
             r = of_int (rne (x / 2 powi q)) * 2 powi q
         in if \<bar>r\<bar> < 2 powi (emax fmt + 1) then Some r else None))"

text \<open>
  Sum and comparison of values that are never negative (the terms of the threshold), so
  that \<open>None\<close> is the positive infinity: it absorbs a sum, is above every number and not
  above itself.
\<close>

definition fadd :: "format \<Rightarrow> real option \<Rightarrow> real option \<Rightarrow> real option" where
  "fadd fmt a b =
     (case a of
        None \<Rightarrow> None
      | Some x \<Rightarrow> (case b of None \<Rightarrow> None | Some y \<Rightarrow> fl fmt (x + y)))"

definition fgt :: "real option \<Rightarrow> real option \<Rightarrow> bool" where
  "fgt a b =
     (case b of
        None \<Rightarrow> False
      | Some t \<Rightarrow> (case a of None \<Rightarrow> True | Some w \<Rightarrow> w > t))"

section \<open>The operations of \<open>HighLevelControl\<close>\<close>

definition InitialiseMoveStatus :: "HighLevelControl \<Rightarrow> HighLevelControl" where
  "InitialiseMoveStatus st =
     st\<lparr>move_status :=
        \<lparr>can_continue = True, is_close_to_wall = False, is_following_wall = False\<rparr>\<rparr>"

definition Move :: "real \<Rightarrow> real \<Rightarrow> HighLevelControl \<Rightarrow> HighLevelControl" where
  "Move linear_velocity' angular_velocity' st =
     st\<lparr>cmd_vel := cmd_vel st @ [\<lparr>linear_x = linear_velocity', angular_z = angular_velocity'\<rparr>]\<rparr>"

definition CanContinue :: "real \<Rightarrow> real \<Rightarrow> real \<Rightarrow> HighLevelControl \<Rightarrow> HighLevelControl" where
  "CanContinue right_min_distance left_min_distance center_min_distance st =
     (let specs = move_specs st;
          (priority_min, secondary_min) =
            (if turn_type specs = RIGHT then
               (if center_min_distance < right_min_distance then center_min_distance
                else right_min_distance,
                left_min_distance)
             else if turn_type specs = LEFT then
               (if center_min_distance < left_min_distance then center_min_distance
                else left_min_distance,
                right_min_distance)
             else
               (Min3 right_min_distance left_min_distance center_min_distance,
                Min3 right_min_distance left_min_distance center_min_distance))
      in if priority_min > high_security_distance specs
            \<and> secondary_min > low_security_distance specs
         then st\<lparr>move_status := (move_status st)\<lparr>can_continue := True\<rparr>\<rparr>
         else st\<lparr>move_status := (move_status st)\<lparr>can_continue := False\<rparr>\<rparr>)"

text \<open>
  \<open>IsCloseToWall\<close> declares \<open>double min;\<close> without an initialiser and assigns it only for
  \<open>RIGHT\<close> and \<open>LEFT\<close>. In the remaining case the source calls \<open>ros::shutdown()\<close>, does not
  return, and goes on to compare \<open>min\<close>: the value it then finds in the variable is the
  parameter \<open>min_uninit\<close>.
\<close>

definition IsCloseToWall ::
  "real \<Rightarrow> real \<Rightarrow> real \<Rightarrow> real \<Rightarrow> HighLevelControl \<Rightarrow> HighLevelControl" where
  "IsCloseToWall min_uninit right_min_distance left_min_distance center_min_distance st =
     (if is_following_wall (move_status st) then
        (let (min', st1) =
               (if turn_type (move_specs st) = RIGHT then (right_min_distance, st)
                else if turn_type (move_specs st) = LEFT then (left_min_distance, st)
                else (min_uninit, st\<lparr>shutdown_requested := True\<rparr>))
         in if min' < wall_follow_distance (move_specs st1)
            then st1\<lparr>move_status := (move_status st1)\<lparr>is_close_to_wall := True\<rparr>\<rparr>
            else st1\<lparr>move_status := (move_status st1)\<lparr>is_close_to_wall := False\<rparr>\<rparr>)
      else st)"

definition NormalMovement ::
  "getmin \<Rightarrow> real \<Rightarrow> real list \<Rightarrow> HighLevelControl \<Rightarrow> fault + HighLevelControl" where
  "NormalMovement GetMin min_uninit rs st =
     (let specs = move_specs st in
      case GetMin rs (low_lim (right_range specs)) (high_lim (right_range specs)) of
        Inl f \<Rightarrow> Inl f
      | Inr right_min_distance \<Rightarrow>
      (case GetMin rs (low_lim (left_range specs)) (high_lim (left_range specs)) of
        Inl f \<Rightarrow> Inl f
      | Inr left_min_distance \<Rightarrow>
      (case GetMin rs (low_lim (center_range specs)) (high_lim (center_range specs)) of
        Inl f \<Rightarrow> Inl f
      | Inr center_min_distance \<Rightarrow>
          Inr (IsCloseToWall min_uninit right_min_distance left_min_distance center_min_distance
                (CanContinue right_min_distance left_min_distance center_min_distance st)))))"

text \<open>
  \<open>HitCircle\<close>. The two branches are written out as in the source; \<open>turn_type_ - 1\<close> is
  integer arithmetic on the enumerator, converted to \<open>double\<close> by the product.
\<close>

definition HitCircle :: "real list \<Rightarrow> HighLevelControl \<Rightarrow> fault + HighLevelControl" where
  "HitCircle rs st =
     (let specs = move_specs st in
      if turn_type specs = RIGHT then
        (case subscript rs (low_lim (right_range specs)) of
           Inl f \<Rightarrow> Inl f
         | Inr back_value \<Rightarrow>
        (case subscript rs 90 of
           Inl f \<Rightarrow> Inl f
         | Inr front_value \<Rightarrow>
             (let diff = front_value - sin (PI / 3) * back_value in
              if diff \<le> 0.05 \<and> diff \<ge> - 0.05 then
                Inr (Move (linear_velocity specs) 0 st)
              else if diff > 0.05 then
                Inr (Move 0 (of_int (- 1 * (turn_code (turn_type specs) - 1))
                               * angular_velocity specs / 4) st)
              else
                Inr (Move 0 (of_int (turn_code (turn_type specs) - 1)
                               * angular_velocity specs / 4) st))))
      else if turn_type specs = LEFT then
        (case subscript rs (high_lim (left_range specs)) of
           Inl f \<Rightarrow> Inl f
         | Inr back_value \<Rightarrow>
        (case subscript rs 630 of
           Inl f \<Rightarrow> Inl f
         | Inr front_value \<Rightarrow>
             (let diff = front_value - sin (PI / 3) * back_value in
              if diff \<le> 0.05 \<and> diff \<ge> - 0.05 then
                Inr (Move (linear_velocity specs) 0 st)
              else if diff > 0.05 then
                Inr (Move 0 (of_int (- 1 * (turn_code (turn_type specs) - 1))
                               * angular_velocity specs / 4) st)
              else
                Inr (Move 0 (of_int (turn_code (turn_type specs) - 1)
                               * angular_velocity specs / 4) st))))
      else Inr st)"

text \<open>
  \<open>WallFollowMove\<close>. The source reseeds with \<open>srand(time(NULL))\<close> and draws \<open>rand()\<close>; the
  number drawn (\<open>rand()\<close> is never negative) is the parameter \<open>rnd\<close>.
\<close>

definition WallFollowMove :: "nat \<Rightarrow> HighLevelControl \<Rightarrow> HighLevelControl" where
  "WallFollowMove rnd st =
     (let status = move_status st; specs = move_specs st in
      if \<not> can_continue status \<and> \<not> is_following_wall status then
        st\<lparr>move_specs := specs\<lparr>turn_type := (if rnd mod 2 = 0 then RIGHT else LEFT)\<rparr>,
           move_status := status\<lparr>is_following_wall := True\<rparr>\<rparr>
      else if can_continue status \<and> \<not> is_following_wall status then
        Move (linear_velocity specs) 0 st
      else
        (if can_continue status \<and> is_close_to_wall status then
           Move (linear_velocity specs) 0 st
         else if \<not> can_continue status then
           Move 0 (of_int (turn_code (turn_type specs) - 1) * angular_velocity specs) st
         else if \<not> is_close_to_wall status then
           Move 0 (of_int (- 1 * (turn_code (turn_type specs) - 1)) * angular_velocity specs) st
         else st))"

text \<open>
  \<open>LaserCallback\<close>, one cycle. The first \<open>let\<close> and the two \<open>case\<close>s are the source's
  statements in order: store the target, read the wall distance, decide the mode, then
  \<open>NormalMovement\<close> and \<open>WallFollowMove\<close>.

  The members \<open>circle_x\<close> and \<open>circle_y\<close> are declared in the header, which is not among
  the sources: their floating-point type is the parameter \<open>fmt\<close>, and the target of a message
  is taken to be a value of that type. In
  \<open>double threshold = circle_x * circle_x + circle_y * circle_y + 0.5\<close> the two products and
  their sum are operations of that type and the sum with the \<open>double\<close> constant is one of
  \<open>double\<close>; \<open>wall * wall\<close> is a product of \<open>double\<close>. Each operation is rounded on its
  own (no fused multiply-add, no wider intermediate precision), as a compiler for x86-64
  does it. The three comparisons with constants are exact.
\<close>

definition LaserCallback ::
  "getmin \<Rightarrow> format \<Rightarrow> nat \<Rightarrow> real \<Rightarrow> HighLevelControl \<Rightarrow> circle_detect_msg
     \<Rightarrow> fault + HighLevelControl"
  where
  "LaserCallback GetMin fmt rnd min_uninit st msg =
     (if \<not> circle_hit_mode st then
        (let st1 = st\<lparr>circle_x := msg_circle_x msg, circle_y := msg_circle_y msg\<rparr> in
         case (if turn_type (move_specs st1) = RIGHT then subscript (ranges msg) 380
               else if turn_type (move_specs st1) = LEFT then subscript (ranges msg) 340
               else Inr 1) of
           Inl f \<Rightarrow> Inl f
         | Inr wall \<Rightarrow>
             (let threshold =
                    fadd binary64
                      (fadd fmt (fl fmt (circle_x st1 * circle_x st1))
                                (fl fmt (circle_y st1 * circle_y st1)))
                      (Some 0.5);
                  st2 = (if fgt (fl binary64 (wall * wall)) threshold \<and> circle_x st1 > - 0.5
                            \<and> circle_x st1 < 0.5 \<and> circle_y st1 < 1
                         then st1\<lparr>circle_hit_mode := True\<rparr> else st1)
              in case NormalMovement GetMin min_uninit (ranges msg) st2 of
                   Inl f \<Rightarrow> Inl f
                 | Inr st3 \<Rightarrow> Inr (WallFollowMove rnd st3)))
      else HitCircle (ranges msg) st)"

text \<open>
  A run of the node: the callback once per incoming message, in order. Each cycle comes
  with the number \<open>rand()\<close> would return and the content of the uninitialised local.
\<close>

type_synonym cycle = "circle_detect_msg \<times> nat \<times> real"

fun run ::
  "getmin \<Rightarrow> format \<Rightarrow> HighLevelControl \<Rightarrow> cycle list \<Rightarrow> fault + HighLevelControl" where
  "run GetMin fmt st [] = Inr st"
| "run GetMin fmt st ((msg, rnd, min_uninit) # cs) =
     (case LaserCallback GetMin fmt rnd min_uninit st msg of
        Inl f \<Rightarrow> Inl f
      | Inr st' \<Rightarrow> run GetMin fmt st' cs)"

section \<open>A configuration and states to run the model on\<close>

text \<open>
  The parameter values come from the ROS parameter server, not from the source; the ones
  below are a plausible configuration for a scanner with 720 readings per frame.
\<close>

definition example_specs :: "TurnType \<Rightarrow> MoveSpecs" where
  "example_specs t =
     \<lparr>high_security_distance = 0.4, low_security_distance = 0.2, wall_follow_distance = 0.5,
      linear_velocity = 0.3, angular_velocity = 0.6,
      right_range = \<lparr>low_lim = 60, high_lim = 200\<rparr>,
      left_range = \<lparr>low_lim = 520, high_lim = 660\<rparr>,
      center_range = \<lparr>low_lim = 300, high_lim = 420\<rparr>,
      turn_type = t\<rparr>"

definition example_state :: "TurnType \<Rightarrow> bool \<Rightarrow> bool \<Rightarrow> bool \<Rightarrow> bool \<Rightarrow> HighLevelControl" where
  "example_state t cc close following hit =
     \<lparr>move_specs = example_specs t,
      move_status = \<lparr>can_continue = cc, is_close_to_wall = close, is_following_wall = following\<rparr>,
      circle_x = - 10, circle_y = - 10, circle_hit_mode = hit,
      cmd_vel = [], shutdown_requested = False\<rparr>"

section \<open>Auxiliary facts\<close>

subsection \<open>The mode flag is neither read nor written by the wall-follow path\<close>

lemma Move_hit_mode [simp]: "circle_hit_mode (Move a b st) = circle_hit_mode st"
  by (simp add: Move_def)

lemma WallFollowMove_hit_mode [simp]:
  "circle_hit_mode (WallFollowMove rnd st) = circle_hit_mode st"
  by (simp add: WallFollowMove_def Let_def)

lemma CanContinue_hit_mode [simp]:
  "circle_hit_mode (CanContinue r l c st) = circle_hit_mode st"
  by (cases "turn_type (move_specs st)") (simp_all add: CanContinue_def Let_def)

lemma IsCloseToWall_hit_mode [simp]:
  "circle_hit_mode (IsCloseToWall mu r l c st) = circle_hit_mode st"
  by (simp add: IsCloseToWall_def Let_def split: prod.splits)

lemma NormalMovement_hit_mode:
  "NormalMovement G mu rs st = Inr st' \<Longrightarrow> circle_hit_mode st' = circle_hit_mode st"
  by (auto simp add: NormalMovement_def Let_def split: sum.splits)

lemma HitCircle_hit_mode:
  "HitCircle rs st = Inr st' \<Longrightarrow> circle_hit_mode st' = circle_hit_mode st"
  by (auto simp add: HitCircle_def Let_def split: sum.splits if_splits)

lemma WallFollowMove_set_hit_mode:
  "WallFollowMove rnd (st\<lparr>circle_hit_mode := b\<rparr>)
     = (WallFollowMove rnd st)\<lparr>circle_hit_mode := b\<rparr>"
  by (simp add: WallFollowMove_def Let_def Move_def)

lemma CanContinue_set_hit_mode:
  "CanContinue r l c (st\<lparr>circle_hit_mode := b\<rparr>)
     = (CanContinue r l c st)\<lparr>circle_hit_mode := b\<rparr>"
  by (cases "turn_type (move_specs st)") (simp_all add: CanContinue_def Let_def)

lemma IsCloseToWall_set_hit_mode:
  "IsCloseToWall mu r l c (st\<lparr>circle_hit_mode := b\<rparr>)
     = (IsCloseToWall mu r l c st)\<lparr>circle_hit_mode := b\<rparr>"
  by (simp add: IsCloseToWall_def Let_def split: prod.splits)

lemma NormalMovement_set_hit_mode:
  "NormalMovement G mu rs (st\<lparr>circle_hit_mode := b\<rparr>) =
     (case NormalMovement G mu rs st of
        Inl f \<Rightarrow> Inl f
      | Inr s \<Rightarrow> Inr (s\<lparr>circle_hit_mode := b\<rparr>))"
  by (simp add: NormalMovement_def Let_def CanContinue_set_hit_mode IsCloseToWall_set_hit_mode
           split: sum.splits)

lemma NormalMovement_keeps_flag_false:
  assumes "\<not> circle_hit_mode st" "NormalMovement G mu rs st = Inr s"
  shows "s\<lparr>circle_hit_mode := False\<rparr> = s"
proof -
  have "\<not> circle_hit_mode s"
    using assms NormalMovement_hit_mode by blast
  then show ?thesis
    by (cases s) simp
qed

lemma LaserCallback_wall_follow:
  assumes nh: "\<not> circle_hit_mode st"
    and w: "(if turn_type (move_specs st) = RIGHT then subscript (ranges msg) 380
             else if turn_type (move_specs st) = LEFT then subscript (ranges msg) 340
             else Inr 1) = Inr wall"
    and n: "NormalMovement G mu (ranges msg)
              (st\<lparr>circle_x := msg_circle_x msg, circle_y := msg_circle_y msg\<rparr>) = Inr st3"
    and b: "b = (fgt (fl binary64 (wall * wall))
                   (fadd binary64
                      (fadd fmt (fl fmt (msg_circle_x msg * msg_circle_x msg))
                                (fl fmt (msg_circle_y msg * msg_circle_y msg)))
                      (Some 0.5))
                 \<and> msg_circle_x msg > - 0.5 \<and> msg_circle_x msg < 0.5 \<and> msg_circle_y msg < 1)"
  shows "LaserCallback G fmt rnd mu st msg
     = Inr ((WallFollowMove rnd st3)\<lparr>circle_hit_mode := b\<rparr>)"
proof -
  let ?st1 = "st\<lparr>circle_x := msg_circle_x msg, circle_y := msg_circle_y msg\<rparr>"
  have nh1: "\<not> circle_hit_mode ?st1"
    using nh by simp
  have ms: "move_specs ?st1 = move_specs st"
    by simp
  have w1: "(if turn_type (move_specs ?st1) = RIGHT then subscript (ranges msg) 380
             else if turn_type (move_specs ?st1) = LEFT then subscript (ranges msg) 340
             else Inr 1) = Inr wall"
    unfolding ms by (rule w)
  have c: "circle_x ?st1 = msg_circle_x msg" "circle_y ?st1 = msg_circle_y msg"
    by simp_all
  have k: "st3\<lparr>circle_hit_mode := False\<rparr> = st3"
    using nh1 n by (rule NormalMovement_keeps_flag_false)
  show ?thesis
  proof (cases b)
    case True
    have "NormalMovement G mu (ranges msg) (?st1\<lparr>circle_hit_mode := True\<rparr>)
        = Inr (st3\<lparr>circle_hit_mode := True\<rparr>)"
      by (simp only: NormalMovement_set_hit_mode n sum.case)
    with True b nh show ?thesis
      unfolding LaserCallback_def Let_def
      by (simp only: if_True if_False not_False_eq_True w1 c sum.case simp_thms
            WallFollowMove_set_hit_mode)
  next
    case False
    have "(WallFollowMove rnd st3)\<lparr>circle_hit_mode := False\<rparr> = WallFollowMove rnd st3"
      using k WallFollowMove_set_hit_mode [where rnd = rnd and st = st3 and b = False]
      by simp
    with False b nh n show ?thesis
      unfolding LaserCallback_def Let_def
      by (simp only: if_True if_False not_False_eq_True w1 c sum.case simp_thms)
  qed
qed

lemma LaserCallback_not_hit:
  assumes nh: "\<not> circle_hit_mode st"
  shows "LaserCallback G fmt rnd mu st msg =
     (case (case turn_type (move_specs st) of
              RIGHT \<Rightarrow> subscript (ranges msg) 380
            | LEFT \<Rightarrow> subscript (ranges msg) 340
            | NONE \<Rightarrow> Inr 1) of
        Inl f \<Rightarrow> Inl f
      | Inr wall \<Rightarrow>
          (case NormalMovement G mu (ranges msg)
                  (st\<lparr>circle_x := msg_circle_x msg, circle_y := msg_circle_y msg\<rparr>) of
             Inl f \<Rightarrow> Inl f
           | Inr st3 \<Rightarrow>
               Inr ((WallFollowMove rnd st3)
                     \<lparr>circle_hit_mode :=
                        (fgt (fl binary64 (wall * wall))
                           (fadd binary64
                              (fadd fmt (fl fmt (msg_circle_x msg * msg_circle_x msg))
                                        (fl fmt (msg_circle_y msg * msg_circle_y msg)))
                              (Some 0.5))
                         \<and> msg_circle_x msg > - 0.5 \<and> msg_circle_x msg < 0.5
                         \<and> msg_circle_y msg < 1)\<rparr>)))"
proof -
  let ?st1 = "st\<lparr>circle_x := msg_circle_x msg, circle_y := msg_circle_y msg\<rparr>"
  let ?wr = "if turn_type (move_specs st) = RIGHT then subscript (ranges msg) 380
             else if turn_type (move_specs st) = LEFT then subscript (ranges msg) 340
             else Inr 1"
  have wr: "(case turn_type (move_specs st) of
               RIGHT \<Rightarrow> subscript (ranges msg) 380
             | LEFT \<Rightarrow> subscript (ranges msg) 340
             | NONE \<Rightarrow> Inr 1) = ?wr"
    by (cases "turn_type (move_specs st)") simp_all
  have ms: "move_specs ?st1 = move_specs st"
    by simp
  show ?thesis
  proof (cases ?wr)
    case (Inl f)
    then show ?thesis
      unfolding wr LaserCallback_def Let_def ms
      by (simp only: nh if_True not_False_eq_True sum.case)
  next
    case w: (Inr wall)
    show ?thesis
    proof (cases "NormalMovement G mu (ranges msg) ?st1")
      case n: (Inl f)
      then have "NormalMovement G mu (ranges msg) (?st1\<lparr>circle_hit_mode := True\<rparr>) = Inl f"
        by (simp only: NormalMovement_set_hit_mode sum.case)
      with n have either:
        "NormalMovement G mu (ranges msg)
           (if c then ?st1\<lparr>circle_hit_mode := True\<rparr> else ?st1) = Inl f" for c
        by (cases c) (simp_all only: if_True if_False)
      from n w show ?thesis
        unfolding wr LaserCallback_def Let_def ms
        by (simp only: nh if_True not_False_eq_True sum.case either)
    next
      case n: (Inr st3)
      from LaserCallback_wall_follow [OF nh w n refl] w n show ?thesis
        unfolding wr by (simp only: sum.case)
    qed
  qed
qed

subsection \<open>Evaluating the rounding\<close>

lemma floor_log2_eq:
  assumes "2 powi e \<le> x" "x < 2 powi (e + 1)"
  shows "\<lfloor>log 2 x\<rfloor> = e"
proof -
  have pos: "0 < x"
    using assms(1) zero_less_power_int [of "2::real" e] by linarith
  have "2 powr (of_int e) = (2::real) powi e" "2 powr (of_int e + 1) = (2::real) powi (e + 1)"
    using powr_real_of_int' [of "2::real" e] powr_real_of_int' [of "2::real" "e + 1"]
    by simp_all
  with assms show ?thesis
    using floor_log_eq_powr_iff [of x 2 e] pos by simp
qed

lemma rne_of_int [simp]: "rne (of_int n) = n"
  by (simp add: rne_def)

lemma rne_numeral [simp]: "rne (numeral k) = numeral k"
  using rne_of_int [of "numeral k"] by simp

lemma rne_near:
  assumes "of_int n - 1 / 2 < y" "y < of_int n + 1 / 2"
  shows "rne y = n"
proof (cases "of_int n \<le> y")
  case True
  then have "\<lfloor>y\<rfloor> = n"
    using assms by (intro floor_unique) auto
  then show ?thesis
    using assms by (simp add: rne_def)
next
  case False
  then have "\<lfloor>y\<rfloor> = n - 1"
    using assms by (intro floor_unique) auto
  then show ?thesis
    using assms False by (simp add: rne_def)
qed

lemma fl_eval:
  assumes "x \<noteq> 0" "2 powi e \<le> \<bar>x\<bar>" "\<bar>x\<bar> < 2 powi (e + 1)"
    and "q = max e (emin fmt) - int (precision fmt) + 1"
    and "rne (x / 2 powi q) = n"
    and "\<bar>of_int n * 2 powi q\<bar> < (2::real) powi (emax fmt + 1)"
  shows "fl fmt x = Some (of_int n * 2 powi q)"
proof -
  have "\<lfloor>log 2 \<bar>x\<bar>\<rfloor> = e"
    using assms(2,3) by (rule floor_log2_eq)
  then show ?thesis
    using assms by (simp add: fl_def Let_def)
qed

subsection \<open>Runs\<close>

lemma LaserCallback_hit_mode:
  assumes "circle_hit_mode st" "LaserCallback G fmt rnd mu st msg = Inr st'"
  shows "circle_hit_mode st'"
  using assms by (simp add: LaserCallback_def HitCircle_hit_mode)

lemma run_hit_mode:
  "circle_hit_mode st \<Longrightarrow> run G fmt st cs = Inr st' \<Longrightarrow> circle_hit_mode st'"
proof (induction cs arbitrary: st)
  case Nil
  then show ?case by simp
next
  case (Cons c cs)
  obtain msg rnd mu where c: "c = (msg, rnd, mu)"
    by (cases c)
  from Cons.prems(2) obtain s
    where s: "LaserCallback G fmt rnd mu st msg = Inr s" and r: "run G fmt s cs = Inr st'"
    by (auto simp add: c split: sum.splits)
  from LaserCallback_hit_mode [OF Cons.prems(1) s] have "circle_hit_mode s" .
  from Cons.IH [OF this r] show ?case .
qed

lemma run_append:
  "run G fmt st (cs @ cs') = (case run G fmt st cs of Inl f \<Rightarrow> Inl f | Inr s \<Rightarrow> run G fmt s cs')"
  by (induction cs arbitrary: st) (auto split: sum.splits)

subsection \<open>Running the model on a frame of equal readings\<close>

lemma funpow_min_same: "(min (v::real) ^^ k) v = v"
  by (induction k) simp_all

lemma GetMin_spec_replicate:
  assumes "0 \<le> lo" "lo \<le> hi" "hi < int n"
  shows "GetMin_spec (replicate n v) lo hi = Inr v"
proof -
  have "nat (hi - lo + 1) > 0"
    using assms by simp
  moreover have "n - nat lo > 0"
    using assms by linarith
  ultimately obtain k where k: "min (nat (hi - lo + 1)) (n - nat lo) = Suc k"
    by (metis min_def gr0_conv_Suc)
  show ?thesis
    using assms by (simp add: GetMin_spec_def Let_def k funpow_min_same)
qed

lemma NormalMovement_replicate:
  assumes "0 \<le> low_lim (right_range (move_specs st))"
    "low_lim (right_range (move_specs st)) \<le> high_lim (right_range (move_specs st))"
    "high_lim (right_range (move_specs st)) < int n"
    "0 \<le> low_lim (left_range (move_specs st))"
    "low_lim (left_range (move_specs st)) \<le> high_lim (left_range (move_specs st))"
    "high_lim (left_range (move_specs st)) < int n"
    "0 \<le> low_lim (center_range (move_specs st))"
    "low_lim (center_range (move_specs st)) \<le> high_lim (center_range (move_specs st))"
    "high_lim (center_range (move_specs st)) < int n"
  shows "NormalMovement GetMin_spec mu (replicate n v) st
     = Inr (IsCloseToWall mu v v v (CanContinue v v v st))"
  using assms by (simp add: NormalMovement_def Let_def GetMin_spec_replicate)

text \<open>
  A cycle before the switch on a frame of 720 equal readings of at least 0.5, following the
  wall on the right: the robot can continue and is not close to the wall, so the command
  is the wall-follow one, \<open>(0, 0.6)\<close>, whatever the mode test says.
\<close>

lemma cycle_equal_readings:
  assumes v: "1 / 2 \<le> v"
    and b: "b = (fgt (fl binary64 (v * v))
                   (fadd binary64 (fadd fmt (fl fmt (cx * cx)) (fl fmt (cy * cy))) (Some 0.5))
                 \<and> cx > - 0.5 \<and> cx < 0.5 \<and> cy < 1)"
  shows "LaserCallback GetMin_spec fmt rnd mu (example_state RIGHT True False True False)
      \<lparr>ranges = replicate 720 v, msg_circle_x = cx, msg_circle_y = cy\<rparr>
   = Inr ((Move 0 0.6 (example_state RIGHT True False True False))
            \<lparr>circle_x := cx, circle_y := cy, circle_hit_mode := b\<rparr>)"
proof -
  let ?s = "example_state RIGHT True False True False"
  let ?m = "\<lparr>ranges = replicate 720 v, msg_circle_x = cx, msg_circle_y = cy\<rparr>"
  have nh: "\<not> circle_hit_mode ?s"
    by (simp add: example_state_def)
  have w: "(if turn_type (move_specs ?s) = RIGHT then subscript (ranges ?m) 380
            else if turn_type (move_specs ?s) = LEFT then subscript (ranges ?m) 340
            else Inr 1) = Inr v"
    by (simp add: example_state_def example_specs_def subscript_def)
  have n: "NormalMovement GetMin_spec mu (ranges ?m)
             (?s\<lparr>circle_x := msg_circle_x ?m, circle_y := msg_circle_y ?m\<rparr>)
           = Inr (?s\<lparr>circle_x := cx, circle_y := cy\<rparr>)"
    using v
    by (simp add: NormalMovement_replicate example_state_def example_specs_def
          CanContinue_def IsCloseToWall_def)
  have b': "b = (fgt (fl binary64 (v * v))
                   (fadd binary64
                      (fadd fmt (fl fmt (msg_circle_x ?m * msg_circle_x ?m))
                                (fl fmt (msg_circle_y ?m * msg_circle_y ?m)))
                      (Some 0.5))
                 \<and> msg_circle_x ?m > - 0.5 \<and> msg_circle_x ?m < 0.5 \<and> msg_circle_y ?m < 1)"
    unfolding circle_detect_msg.select_convs by (rule b)
  have "WallFollowMove rnd (?s\<lparr>circle_x := cx, circle_y := cy\<rparr>)
      = (Move 0 0.6 ?s)\<lparr>circle_x := cx, circle_y := cy\<rparr>"
    by (simp add: WallFollowMove_def Move_def example_state_def example_specs_def)
  with LaserCallback_wall_follow [OF nh w n b'] show ?thesis
    by simp
qed

text \<open>
  Scenario F of the spec as a whole cycle: every reading 2 m, the target at \<open>(0, 0.5)\<close>,
  the target fields of type \<open>float\<close>. All five operations are exact: the threshold is 0.75
  and \<open>wall * wall\<close> is 4. The mode switches.
\<close>

lemma scenario_F_test:
  "fgt (fl binary64 (2 * 2))
     (fadd binary64 (fadd binary32 (fl binary32 (0 * 0)) (fl binary32 (0.5 * 0.5))) (Some 0.5))"
proof -
  have xx: "fl binary32 (0 * 0) = Some 0"
    by (simp add: fl_def)
  have yy: "fl binary32 (0.5 * 0.5) = Some (of_int 8388608 * 2 powi (- 25))"
    by (rule fl_eval [where e = "- 2"]) (simp_all add: binary32_def)
  have ss: "fl binary32 (0 + of_int 8388608 * 2 powi (- 25))
      = Some (of_int 8388608 * 2 powi (- 25))"
    by (rule fl_eval [where e = "- 2"]) (simp_all add: binary32_def)
  have tt: "fl binary64 (of_int 8388608 * 2 powi (- 25) + 0.5)
      = Some (of_int 6755399441055744 * 2 powi (- 53))"
    by (rule fl_eval [where e = "- 1"]) (simp_all add: binary64_def)
  have ww: "fl binary64 (2 * 2) = Some (of_int 4503599627370496 * 2 powi (- 50))"
    by (rule fl_eval [where e = 2]) (simp_all add: binary64_def)
  show ?thesis
    unfolding xx yy ww fadd_def option.case ss tt fgt_def
    by simp
qed

lemma cycle_scenario_F:
  "LaserCallback GetMin_spec binary32 0 0 (example_state RIGHT True False True False)
      \<lparr>ranges = replicate 720 2, msg_circle_x = 0, msg_circle_y = 0.5\<rparr>
   = Inr ((Move 0 0.6 (example_state RIGHT True False True False))
            \<lparr>circle_x := 0, circle_y := 0.5, circle_hit_mode := True\<rparr>)"
proof -
  have "True = (fgt (fl binary64 (2 * 2))
                   (fadd binary64 (fadd binary32 (fl binary32 (0 * 0)) (fl binary32 (0.5 * 0.5)))
                      (Some 0.5))
                 \<and> (0::real) > - 0.5 \<and> (0::real) < 0.5 \<and> (0.5::real) < 1)"
    using scenario_F_test by simp
  then show ?thesis
    by (intro cycle_equal_readings) simp_all
qed

text \<open>
  A cycle at the edge of the test: every reading 0.75 and the target at
  \<open>(11863283 / 2\<^sup>3\<^sup>7, 16777215 / 2\<^sup>2\<^sup>6)\<close>, all three values of the type \<open>float\<close>. The exact
  sum \<open>circle_x\<^sup>2 + circle_y\<^sup>2 + 0.5\<close> lies below \<open>wall\<^sup>2 = 0.5625\<close> by about \<open>3.3e-17\<close>;
  the threshold the source computes is rounded to 0.5625, whether the target fields are of
  type \<open>float\<close> or \<open>double\<close>, and the test fails.
\<close>

lemma edge_test_binary32:
  "\<not> fgt (fl binary64 (3 / 4 * (3 / 4)))
      (fadd binary64
         (fadd binary32 (fl binary32 (11863283 / 2 ^ 37 * (11863283 / 2 ^ 37)))
                        (fl binary32 (16777215 / 2 ^ 26 * (16777215 / 2 ^ 26))))
         (Some 0.5))"
proof -
  have xx: "fl binary32 (11863283 / 2 ^ 37 * (11863283 / 2 ^ 37))
      = Some (of_int 16777215 * 2 powi (- 51))"
  proof (rule fl_eval [where e = "- 28"])
    show "rne (11863283 / 2 ^ 37 * (11863283 / 2 ^ 37) / 2 powi (- 51)) = 16777215"
      by (rule rne_near) simp_all
  qed (simp_all add: binary32_def)
  have yy: "fl binary32 (16777215 / 2 ^ 26 * (16777215 / 2 ^ 26))
      = Some (of_int 16777214 * 2 powi (- 28))"
  proof (rule fl_eval [where e = "- 5"])
    show "rne (16777215 / 2 ^ 26 * (16777215 / 2 ^ 26) / 2 powi (- 28)) = 16777214"
      by (rule rne_near) simp_all
  qed (simp_all add: binary32_def)
  have ss: "fl binary32 (of_int 16777215 * 2 powi (- 51) + of_int 16777214 * 2 powi (- 28))
      = Some (of_int 16777216 * 2 powi (- 28))"
  proof (rule fl_eval [where e = "- 5"])
    show "rne ((of_int 16777215 * 2 powi (- 51) + of_int 16777214 * 2 powi (- 28))
            / 2 powi (- 28)) = 16777216"
      by (rule rne_near) simp_all
  qed (simp_all add: binary32_def)
  have tt: "fl binary64 (of_int 16777216 * 2 powi (- 28) + 0.5)
      = Some (of_int 5066549580791808 * 2 powi (- 53))"
    by (rule fl_eval [where e = "- 1"]) (simp_all add: binary64_def)
  have ww: "fl binary64 (3 / 4 * (3 / 4)) = Some (of_int 5066549580791808 * 2 powi (- 53))"
    by (rule fl_eval [where e = "- 1"]) (simp_all add: binary64_def)
  show ?thesis
    unfolding xx yy ww fadd_def option.case ss tt fgt_def
    by simp
qed

lemma edge_test_binary64:
  "\<not> fgt (fl binary64 (3 / 4 * (3 / 4)))
      (fadd binary64
         (fadd binary64 (fl binary64 (11863283 / 2 ^ 37 * (11863283 / 2 ^ 37)))
                        (fl binary64 (16777215 / 2 ^ 26 * (16777215 / 2 ^ 26))))
         (Some 0.5))"
proof -
  have xx: "fl binary64 (11863283 / 2 ^ 37 * (11863283 / 2 ^ 37))
      = Some (of_int 9007198946437696 * 2 powi (- 80))"
    by (rule fl_eval [where e = "- 28"]) (simp_all add: binary64_def)
  have yy: "fl binary64 (16777215 / 2 ^ 26 * (16777215 / 2 ^ 26))
      = Some (of_int 9007198180999200 * 2 powi (- 57))"
    by (rule fl_eval [where e = "- 5"]) (simp_all add: binary64_def)
  have ss: "fl binary64
        (of_int 9007198946437696 * 2 powi (- 80) + of_int 9007198180999200 * 2 powi (- 57))
      = Some (of_int 9007199254740987 * 2 powi (- 57))"
  proof (rule fl_eval [where e = "- 5"])
    show "rne ((of_int 9007198946437696 * 2 powi (- 80)
                + of_int 9007198180999200 * 2 powi (- 57)) / 2 powi (- 57))
        = 9007199254740987"
      by (rule rne_near) simp_all
  qed (simp_all add: binary64_def)
  have tt: "fl binary64 (of_int 9007199254740987 * 2 powi (- 57) + 0.5)
      = Some (of_int 5066549580791808 * 2 powi (- 53))"
  proof (rule fl_eval [where e = "- 1"])
    show "rne ((of_int 9007199254740987 * 2 powi (- 57) + 0.5) / 2 powi (- 53))
        = 5066549580791808"
      by (rule rne_near) simp_all
  qed (simp_all add: binary64_def)
  have ww: "fl binary64 (3 / 4 * (3 / 4)) = Some (of_int 5066549580791808 * 2 powi (- 53))"
    by (rule fl_eval [where e = "- 1"]) (simp_all add: binary64_def)
  show ?thesis
    unfolding xx yy ww fadd_def option.case ss tt fgt_def
    by simp
qed

subsection \<open>The constant of the alignment test\<close>

text \<open>
  \<open>HitCircle\<close> multiplies by \<open>sin(PI / 3.0)\<close> with \<open>PI\<close> the macro above, not by the sine
  of 60 degrees. The value is enclosed by evaluating the Maclaurin polynomial of degree 13
  with its remainder bound; the sine of 60 degrees lies above the enclosure.
\<close>

lemma sin_coeff_sum_14:
  "(\<Sum>m<14. sin_coeff m * x ^ m) =
     x - x^3 / 6 + x^5 / 120 - x^7 / 5040 + x^9 / 362880 - x^11 / 39916800
       + x^13 / 6227020800" for x :: real
proof -
  have n: "(14::nat) =
      Suc (Suc (Suc (Suc (Suc (Suc (Suc (Suc (Suc (Suc (Suc (Suc (Suc (Suc 0)))))))))))))"
    by simp
  have "(\<Sum>m<14. sin_coeff m * x ^ m) = x * (x * (x * (x * x))) / 120 +
     (x * (x * (x * (x * (x * (x * (x * (x * x))))))) / 362880 +
      (x * (x * (x * (x * (x * (x * (x * (x * (x * (x * (x * (x * x))))))))))) / 6227020800 -
       x * (x * (x * (x * (x * (x * (x * (x * (x * (x * x))))))))) / 39916800) -
      x * (x * (x * (x * (x * (x * x))))) / 5040) -
     x * (x * x) / 6 + x"
    unfolding n sum.lessThan_Suc
    by (simp add: sin_coeff_def fact_numeral numeral_eq_Suc [symmetric] del: One_nat_def)
  also have "\<dots> = x - x^3 / 6 + x^5 / 120 - x^7 / 5040 + x^9 / 362880 - x^11 / 39916800
       + x^13 / 6227020800"
    by (simp add: numeral_eq_Suc)
  finally show ?thesis .
qed

lemma sin_PI_3_bounds:
  "8660254030 / 10000000000 < sin (PI / 3) \<and> sin (PI / 3) < 8660254033 / 10000000000"
proof -
  let ?x = "20943951 / 20000000 :: real"
  have x: "PI / 3 = ?x" by (simp add: PI_def)
  have b: "\<bar>sin ?x - (\<Sum>m<14. sin_coeff m * ?x ^ m)\<bar> \<le> inverse (fact 14) * \<bar>?x\<bar> ^ 14"
    by (rule Maclaurin_sin_bound)
  have f: "inverse (fact 14) * \<bar>?x\<bar> ^ 14 = ?x ^ 14 / 87178291200"
    by (simp add: fact_numeral)
  have up: "?x - ?x^3 / 6 + ?x^5 / 120 - ?x^7 / 5040 + ?x^9 / 362880 - ?x^11 / 39916800
          + ?x^13 / 6227020800 + ?x ^ 14 / 87178291200 < 8660254033 / 10000000000"
    by (simp add: power_divide)
  have lo: "8660254030 / 10000000000 < ?x - ?x^3 / 6 + ?x^5 / 120 - ?x^7 / 5040 + ?x^9 / 362880
          - ?x^11 / 39916800 + ?x^13 / 6227020800 - ?x ^ 14 / 87178291200"
    by (simp add: power_divide)
  from b up lo show ?thesis unfolding x sin_coeff_sum_14 f by linarith
qed

lemma sin_60_lower: "8660254037 / 10000000000 \<le> sin (pi / 3)"
proof -
  have "(8660254037 / 5000000000 :: real) \<le> sqrt 3"
    by (rule real_le_rsqrt) (simp add: power2_eq_square)
  then show ?thesis by (simp add: sin_60)
qed

lemma sin_PI_3_coarse: "86 / 100 < sin (PI / 3) \<and> sin (PI / 3) < 87 / 100"
  using sin_PI_3_bounds by simp

subsection \<open>\<open>HitCircle\<close> once the two readings are known\<close>

lemma HitCircle_RIGHT:
  assumes "turn_type (move_specs st) = RIGHT"
    and "subscript rs (low_lim (right_range (move_specs st))) = Inr bv"
    and "subscript rs 90 = Inr fv"
  shows "HitCircle rs st =
     Inr (if - 0.05 \<le> fv - sin (PI / 3) * bv \<and> fv - sin (PI / 3) * bv \<le> 0.05
          then Move (linear_velocity (move_specs st)) 0 st
          else if fv - sin (PI / 3) * bv > 0.05
          then Move 0 (angular_velocity (move_specs st) / 4) st
          else Move 0 (- angular_velocity (move_specs st) / 4) st)"
  using assms by (simp add: HitCircle_def Let_def)

lemma HitCircle_LEFT:
  assumes "turn_type (move_specs st) = LEFT"
    and "subscript rs (high_lim (left_range (move_specs st))) = Inr bv"
    and "subscript rs 630 = Inr fv"
  shows "HitCircle rs st =
     Inr (if - 0.05 \<le> fv - sin (PI / 3) * bv \<and> fv - sin (PI / 3) * bv \<le> 0.05
          then Move (linear_velocity (move_specs st)) 0 st
          else if fv - sin (PI / 3) * bv > 0.05
          then Move 0 (- angular_velocity (move_specs st) / 4) st
          else Move 0 (angular_velocity (move_specs st) / 4) st)"
  using assms by (simp add: HitCircle_def Let_def)

subsection \<open>A hit-mode cycle of the example configuration\<close>

lemma cycle_hit_far:
  assumes "circle_hit_mode st" "move_specs st = example_specs RIGHT"
  shows "LaserCallback G fmt rnd mu st
      \<lparr>ranges = replicate 720 2, msg_circle_x = cx, msg_circle_y = cy\<rparr>
     = Inr (Move 0 0.15 st)"
proof -
  have t: "turn_type (move_specs st) = RIGHT"
    by (simp add: assms(2) example_specs_def)
  have r1: "subscript (replicate 720 2) (low_lim (right_range (move_specs st))) = Inr 2"
    by (simp add: subscript_def assms(2) example_specs_def)
  have r2: "subscript (replicate 720 2) 90 = Inr 2"
    by (simp add: subscript_def)
  show ?thesis
    using sin_PI_3_coarse HitCircle_RIGHT [OF t r1 r2] assms(1)
    by (simp add: LaserCallback_def assms(2) example_specs_def)
qed

subsection \<open>Unchecked reads in \<open>HitCircle\<close>\<close>

lemma subscript_Inl: "subscript rs i = Inl f \<Longrightarrow> f = UncheckedRead"
  by (simp add: subscript_def split: if_splits)

lemma HitCircle_RIGHT_unchecked:
  assumes "turn_type (move_specs st) = RIGHT"
    and "subscript rs (low_lim (right_range (move_specs st))) = Inl UncheckedRead
       \<or> subscript rs 90 = Inl UncheckedRead"
  shows "HitCircle rs st = Inl UncheckedRead"
proof (cases "subscript rs (low_lim (right_range (move_specs st)))")
  case (Inl f)
  with subscript_Inl [OF Inl] assms(1) show ?thesis
    by (simp add: HitCircle_def Let_def)
next
  case (Inr bv)
  with assms have "subscript rs 90 = Inl UncheckedRead"
    by simp
  with Inr assms(1) show ?thesis
    by (simp add: HitCircle_def Let_def)
qed

lemma HitCircle_LEFT_unchecked:
  assumes "turn_type (move_specs st) = LEFT"
    and "subscript rs (high_lim (left_range (move_specs st))) = Inl UncheckedRead
       \<or> subscript rs 630 = Inl UncheckedRead"
  shows "HitCircle rs st = Inl UncheckedRead"
proof (cases "subscript rs (high_lim (left_range (move_specs st)))")
  case (Inl f)
  with subscript_Inl [OF Inl] assms(1) show ?thesis
    by (simp add: HitCircle_def Let_def)
next
  case (Inr bv)
  with assms have "subscript rs 630 = Inl UncheckedRead"
    by simp
  with Inr assms(1) show ?thesis
    by (simp add: HitCircle_def Let_def)
qed

subsection \<open>Unchecked reads of a cycle\<close>

text \<open>
  The frames on which \<open>LaserCallback\<close> or \<open>HitCircle\<close> itself reads outside the vector:
  too short for \<open>ranges[380]\<close> (\<open>RIGHT\<close>) or \<open>ranges[340]\<close> (\<open>LEFT\<close>) before the switch, and
  for \<open>ranges[90]\<close> or \<open>ranges[right_range.low_lim]\<close> (\<open>RIGHT\<close>), \<open>ranges[630]\<close> or
  \<open>ranges[left_range.high_lim]\<close> (\<open>LEFT\<close>) after it.
\<close>

lemma undersized_frame_unchecked_read:
  assumes "\<not> circle_hit_mode st \<and> turn_type (move_specs st) = RIGHT
             \<and> length (ranges msg) \<le> 380
         \<or> \<not> circle_hit_mode st \<and> turn_type (move_specs st) = LEFT
             \<and> length (ranges msg) \<le> 340
         \<or> circle_hit_mode st \<and> turn_type (move_specs st) = RIGHT
             \<and> (length (ranges msg) \<le> 90
                  \<or> low_lim (right_range (move_specs st)) < 0
                  \<or> int (length (ranges msg)) \<le> low_lim (right_range (move_specs st)))
         \<or> circle_hit_mode st \<and> turn_type (move_specs st) = LEFT
             \<and> (length (ranges msg) \<le> 630
                  \<or> high_lim (left_range (move_specs st)) < 0
                  \<or> int (length (ranges msg)) \<le> high_lim (left_range (move_specs st)))"
  shows "LaserCallback G fmt rnd mu st msg = Inl UncheckedRead"
proof -
  let ?rs = "ranges msg"
  from assms consider
      (wall_right) "\<not> circle_hit_mode st" "turn_type (move_specs st) = RIGHT"
        "length ?rs \<le> 380"
    | (wall_left) "\<not> circle_hit_mode st" "turn_type (move_specs st) = LEFT"
        "length ?rs \<le> 340"
    | (hit_right) "circle_hit_mode st" "turn_type (move_specs st) = RIGHT"
        "length ?rs \<le> 90 \<or> low_lim (right_range (move_specs st)) < 0
           \<or> int (length ?rs) \<le> low_lim (right_range (move_specs st))"
    | (hit_left) "circle_hit_mode st" "turn_type (move_specs st) = LEFT"
        "length ?rs \<le> 630 \<or> high_lim (left_range (move_specs st)) < 0
           \<or> int (length ?rs) \<le> high_lim (left_range (move_specs st))"
    by blast
  then show ?thesis
  proof cases
    case wall_right
    then show ?thesis
      by (simp add: LaserCallback_def Let_def subscript_def)
  next
    case wall_left
    then show ?thesis
      by (simp add: LaserCallback_def Let_def subscript_def)
  next
    case hit_right
    from hit_right(3)
    have "subscript ?rs (low_lim (right_range (move_specs st))) = Inl UncheckedRead
        \<or> subscript ?rs 90 = Inl UncheckedRead"
      by (auto simp add: subscript_def)
    with hit_right(1,2) show ?thesis
      by (simp add: LaserCallback_def HitCircle_RIGHT_unchecked)
  next
    case hit_left
    from hit_left(3)
    have "subscript ?rs (high_lim (left_range (move_specs st))) = Inl UncheckedRead
        \<or> subscript ?rs 630 = Inl UncheckedRead"
      by (auto simp add: subscript_def)
    with hit_left(1,2) show ?thesis
      by (simp add: LaserCallback_def HitCircle_LEFT_unchecked)
  qed
qed

subsection \<open>\<open>IsCloseToWall\<close> by turn direction\<close>

text \<open>
  While the robot follows a wall, \<open>IsCloseToWall\<close> compares the right minimum for \<open>RIGHT\<close>
  and the left minimum for \<open>LEFT\<close> with \<open>wall_follow_distance\<close>. For \<open>NONE\<close> it requests
  the shutdown and then compares the content of the uninitialised local all the same, so
  \<open>is_close_to_wall\<close> is written in every case.
\<close>

lemma IsCloseToWall_RIGHT:
  assumes "is_following_wall (move_status st)" "turn_type (move_specs st) = RIGHT"
  shows "IsCloseToWall mu r l c st
     = st\<lparr>move_status := (move_status st)\<lparr>is_close_to_wall := r < wall_follow_distance (move_specs st)\<rparr>\<rparr>"
  using assms by (simp add: IsCloseToWall_def)

lemma IsCloseToWall_LEFT:
  assumes "is_following_wall (move_status st)" "turn_type (move_specs st) = LEFT"
  shows "IsCloseToWall mu r l c st
     = st\<lparr>move_status := (move_status st)\<lparr>is_close_to_wall := l < wall_follow_distance (move_specs st)\<rparr>\<rparr>"
  using assms by (simp add: IsCloseToWall_def)

lemma IsCloseToWall_NONE:
  assumes "is_following_wall (move_status st)" "turn_type (move_specs st) = NONE"
  shows "IsCloseToWall mu r l c st
     = st\<lparr>shutdown_requested := True,
          move_status := (move_status st)\<lparr>is_close_to_wall := mu < wall_follow_distance (move_specs st)\<rparr>\<rparr>"
  using assms by (simp add: IsCloseToWall_def)

lemma IsCloseToWall_not_following:
  "\<not> is_following_wall (move_status st) \<Longrightarrow> IsCloseToWall mu r l c st = st"
  by (simp add: IsCloseToWall_def)

subsection \<open>A followed wall has a side\<close>

text \<open>
  \<open>is_following_wall\<close> is only set together with a turn direction \<open>RIGHT\<close> or \<open>LEFT\<close>, and
  nothing resets the direction: a state with \<open>is_following_wall\<close> and \<open>NONE\<close> does not arise
  from one without through \<open>LaserCallback\<close>.
\<close>

lemma Move_fields [simp]:
  "move_specs (Move a b st) = move_specs st"
  "move_status (Move a b st) = move_status st"
  "shutdown_requested (Move a b st) = shutdown_requested st"
  by (simp_all add: Move_def)

lemma CanContinue_fields [simp]:
  "move_specs (CanContinue r l c st) = move_specs st"
  "is_following_wall (move_status (CanContinue r l c st)) = is_following_wall (move_status st)"
  "shutdown_requested (CanContinue r l c st) = shutdown_requested st"
  by (cases "turn_type (move_specs st)"; simp add: CanContinue_def Let_def)+

lemma IsCloseToWall_fields [simp]:
  "move_specs (IsCloseToWall mu r l c st) = move_specs st"
  "is_following_wall (move_status (IsCloseToWall mu r l c st)) = is_following_wall (move_status st)"
  by (simp_all add: IsCloseToWall_def Let_def split: prod.splits)

lemma NormalMovement_following_invariant:
  assumes "NormalMovement G mu rs st = Inr st'"
  shows "is_following_wall (move_status st') = is_following_wall (move_status st)
     \<and> turn_type (move_specs st') = turn_type (move_specs st)"
  using assms
  by (auto simp add: NormalMovement_def Let_def split: sum.splits)

lemma WallFollowMove_following_invariant:
  assumes "is_following_wall (move_status st) \<longrightarrow> turn_type (move_specs st) \<noteq> NONE"
  shows "is_following_wall (move_status (WallFollowMove rnd st))
     \<longrightarrow> turn_type (move_specs (WallFollowMove rnd st)) \<noteq> NONE"
  using assms by (simp add: WallFollowMove_def Let_def)

lemma HitCircle_following_invariant:
  assumes "HitCircle rs st = Inr st'"
  shows "is_following_wall (move_status st') = is_following_wall (move_status st)
     \<and> turn_type (move_specs st') = turn_type (move_specs st)"
  using assms
  by (auto simp add: HitCircle_def Let_def split: sum.splits if_splits)

lemma LaserCallback_following_invariant:
  assumes "is_following_wall (move_status st) \<longrightarrow> turn_type (move_specs st) \<noteq> NONE"
    and "LaserCallback G fmt rnd mu st msg = Inr st'"
  shows "is_following_wall (move_status st') \<longrightarrow> turn_type (move_specs st') \<noteq> NONE"
proof (cases "circle_hit_mode st")
  case True
  with assms(2) have "HitCircle (ranges msg) st = Inr st'"
    by (simp add: LaserCallback_def)
  from HitCircle_following_invariant [OF this] assms(1) show ?thesis
    by simp
next
  case False
  with assms(2) obtain s2 s3 where n: "NormalMovement G mu (ranges msg) s2 = Inr s3"
      and s: "move_specs s2 = move_specs st" "move_status s2 = move_status st"
      and r: "st' = WallFollowMove rnd s3"
    by (auto simp add: LaserCallback_def Let_def split: sum.splits if_splits)
  from NormalMovement_following_invariant [OF n] s assms(1)
  have "is_following_wall (move_status s3) \<longrightarrow> turn_type (move_specs s3) \<noteq> NONE"
    by simp
  then show ?thesis
    unfolding r by (rule WallFollowMove_following_invariant)
qed

lemma InitialiseMoveStatus_following_invariant:
  "is_following_wall (move_status (InitialiseMoveStatus st))
     \<longrightarrow> turn_type (move_specs (InitialiseMoveStatus st)) \<noteq> NONE"
  by (simp add: InitialiseMoveStatus_def)

lemma run_following_invariant:
  "is_following_wall (move_status st) \<longrightarrow> turn_type (move_specs st) \<noteq> NONE \<Longrightarrow>
   run G fmt st cs = Inr st' \<Longrightarrow>
   is_following_wall (move_status st') \<longrightarrow> turn_type (move_specs st') \<noteq> NONE"
proof (induction cs arbitrary: st)
  case Nil
  then show ?case by simp
next
  case (Cons c cs)
  obtain msg rnd mu where c: "c = (msg, rnd, mu)"
    by (cases c)
  from Cons.prems(2) obtain s
    where s: "LaserCallback G fmt rnd mu st msg = Inr s" and r: "run G fmt s cs = Inr st'"
    by (auto simp add: c split: sum.splits)
  from Cons.IH [OF LaserCallback_following_invariant [OF Cons.prems(1) s] r] show ?case .
qed

section \<open>The claims\<close>

subsection \<open>Wall-follow command table\<close>

text \<open>
  C1. With the turn direction \<open>LEFT\<close> or \<open>RIGHT\<close> (sign \<open>+1\<close> and \<open>-1\<close>), \<open>WallFollowMove\<close>
  publishes exactly this command on \<open>cmd_vel\<close>: \<open>(linear_velocity, 0)\<close> when the robot can
  continue and is not following a wall; \<open>(linear_velocity, 0)\<close> when it follows a wall, can
  continue and is close to the wall; \<open>(0, sign * angular_velocity)\<close> when it follows a wall
  and cannot continue; \<open>(0, - sign * angular_velocity)\<close> when it follows a wall, can
  continue and is not close to the wall. The message is appended to what was published
  before and nothing else of the state changes.
\<close>

theorem wall_follow_command_table:
  assumes "turn_type (move_specs st) \<in> {LEFT, RIGHT}"
  shows "(can_continue (move_status st) \<and> \<not> is_following_wall (move_status st) \<longrightarrow>
            WallFollowMove rnd st =
              st\<lparr>cmd_vel := cmd_vel st
                   @ [\<lparr>linear_x = linear_velocity (move_specs st), angular_z = 0\<rparr>]\<rparr>)
       \<and> (is_following_wall (move_status st) \<and> can_continue (move_status st)
            \<and> is_close_to_wall (move_status st) \<longrightarrow>
            WallFollowMove rnd st =
              st\<lparr>cmd_vel := cmd_vel st
                   @ [\<lparr>linear_x = linear_velocity (move_specs st), angular_z = 0\<rparr>]\<rparr>)
       \<and> (is_following_wall (move_status st) \<and> \<not> can_continue (move_status st) \<longrightarrow>
            WallFollowMove rnd st =
              st\<lparr>cmd_vel := cmd_vel st
                   @ [\<lparr>linear_x = 0,
                       angular_z =
                         (case turn_type (move_specs st) of LEFT \<Rightarrow> 1 | NONE \<Rightarrow> 0 | RIGHT \<Rightarrow> - 1)
                           * angular_velocity (move_specs st)\<rparr>]\<rparr>)
       \<and> (is_following_wall (move_status st) \<and> can_continue (move_status st)
            \<and> \<not> is_close_to_wall (move_status st) \<longrightarrow>
            WallFollowMove rnd st =
              st\<lparr>cmd_vel := cmd_vel st
                   @ [\<lparr>linear_x = 0,
                       angular_z =
                         - (case turn_type (move_specs st) of LEFT \<Rightarrow> 1 | NONE \<Rightarrow> 0 | RIGHT \<Rightarrow> - 1)
                           * angular_velocity (move_specs st)\<rparr>]\<rparr>)"
  using assms by (auto simp add: WallFollowMove_def Let_def Move_def)

text \<open>
  The table at six states of the example configuration (linear velocity 0.3, angular
  velocity 0.6, nothing published before); the third line is scenario D of the spec.
\<close>

theorem wall_follow_command_table_witness:
  "cmd_vel (WallFollowMove 0 (example_state RIGHT True False False False))
     = [\<lparr>linear_x = 0.3, angular_z = 0\<rparr>]
   \<and> cmd_vel (WallFollowMove 0 (example_state LEFT True True True False))
     = [\<lparr>linear_x = 0.3, angular_z = 0\<rparr>]
   \<and> cmd_vel (WallFollowMove 0 (example_state RIGHT False False True False))
     = [\<lparr>linear_x = 0, angular_z = - 0.6\<rparr>]
   \<and> cmd_vel (WallFollowMove 0 (example_state LEFT False True True False))
     = [\<lparr>linear_x = 0, angular_z = 0.6\<rparr>]
   \<and> cmd_vel (WallFollowMove 0 (example_state RIGHT True False True False))
     = [\<lparr>linear_x = 0, angular_z = 0.6\<rparr>]
   \<and> cmd_vel (WallFollowMove 0 (example_state LEFT True False True False))
     = [\<lparr>linear_x = 0, angular_z = - 0.6\<rparr>]"
  using wall_follow_command_table [of "example_state RIGHT True False False False" 0]
    wall_follow_command_table [of "example_state LEFT True True True False" 0]
    wall_follow_command_table [of "example_state RIGHT False False True False" 0]
    wall_follow_command_table [of "example_state LEFT False True True False" 0]
    wall_follow_command_table [of "example_state RIGHT True False True False" 0]
    wall_follow_command_table [of "example_state LEFT True False True False" 0]
  by (simp add: example_state_def example_specs_def)

subsection \<open>Mode switch\<close>

text \<open>
  C2, as the code has it. In a cycle that starts with the mode flag false and runs to its
  end, the flag is true afterwards if and only if \<open>wall * wall > threshold\<close>,
  \<open>-0.5 < circle_x < 0.5\<close> and \<open>circle_y < 1\<close>. Here \<open>wall\<close> is \<open>ranges[380]\<close> for \<open>RIGHT\<close>,
  \<open>ranges[340]\<close> for \<open>LEFT\<close> and 1 otherwise (the direction at the start of the cycle), the
  target is that of the message, and both sides of the first comparison are the
  floating-point values the source computes: \<open>wall * wall\<close> rounded to \<open>double\<close>, and for
  \<open>threshold\<close> the two squares and their sum rounded to the type of the fields \<open>circle_x\<close>
  and \<open>circle_y\<close>, then the sum with 0.5 rounded to \<open>double\<close>.
\<close>

theorem mode_switch_condition:
  assumes "\<not> circle_hit_mode st" and "LaserCallback G fmt rnd mu st msg = Inr st'"
  shows "circle_hit_mode st' \<longleftrightarrow>
     (let wall = (case turn_type (move_specs st) of
                    RIGHT \<Rightarrow> ranges msg ! 380 | LEFT \<Rightarrow> ranges msg ! 340 | NONE \<Rightarrow> 1);
          threshold =
            fadd binary64
              (fadd fmt (fl fmt (msg_circle_x msg * msg_circle_x msg))
                        (fl fmt (msg_circle_y msg * msg_circle_y msg)))
              (Some 0.5)
      in fgt (fl binary64 (wall * wall)) threshold
         \<and> - 0.5 < msg_circle_x msg \<and> msg_circle_x msg < 0.5 \<and> msg_circle_y msg < 1)"
  using assms(2) unfolding LaserCallback_not_hit [OF assms(1)]
  by (cases "turn_type (move_specs st)")
     (auto simp add: Let_def subscript_def split: sum.splits if_splits)

text \<open>
  Scenario F of the spec, the target fields of type \<open>float\<close>: \<open>wall * wall = 4\<close> is above
  the threshold 0.75, the target is centred, the mode switches.
\<close>

theorem mode_switch_condition_witness:
  "\<not> circle_hit_mode (example_state RIGHT True False True False)
   \<and> LaserCallback GetMin_spec binary32 0 0 (example_state RIGHT True False True False)
        \<lparr>ranges = replicate 720 2, msg_circle_x = 0, msg_circle_y = 0.5\<rparr>
      = Inr ((Move 0 0.6 (example_state RIGHT True False True False))
               \<lparr>circle_x := 0, circle_y := 0.5, circle_hit_mode := True\<rparr>)
   \<and> fgt (fl binary64 (2 * 2))
        (fadd binary64 (fadd binary32 (fl binary32 (0 * 0)) (fl binary32 (0.5 * 0.5)))
           (Some 0.5))"
proof -
  have nh: "\<not> circle_hit_mode (example_state RIGHT True False True False)"
    by (simp add: example_state_def)
  from mode_switch_condition [OF nh cycle_scenario_F] nh cycle_scenario_F show ?thesis
    by (simp add: example_state_def example_specs_def Let_def)
qed

text \<open>
  With the exact sum for the threshold the statement fails. On a frame of readings 0.75
  with the target at \<open>(11863283 / 2\<^sup>3\<^sup>7, 16777215 / 2\<^sup>2\<^sup>6)\<close>, all of them values of the
  type \<open>float\<close>, \<open>wall\<^sup>2\<close> is above \<open>circle_x\<^sup>2 + circle_y\<^sup>2 + 0.5\<close> and the target is
  centred and near, so the flag would be set; the cycle leaves it false, for target fields
  of type \<open>float\<close> and of type \<open>double\<close>.
\<close>

theorem mode_switch_exact_counterexample:
  "(3 / 4)\<^sup>2 > (11863283 / 2 ^ 37)\<^sup>2 + (16777215 / 2 ^ 26)\<^sup>2 + (0.5::real)
   \<and> - 0.5 < (11863283 / 2 ^ 37 :: real) \<and> (11863283 / 2 ^ 37 :: real) < 0.5
   \<and> (16777215 / 2 ^ 26 :: real) < 1
   \<and> \<not> circle_hit_mode (example_state RIGHT True False True False)
   \<and> LaserCallback GetMin_spec binary32 0 0 (example_state RIGHT True False True False)
        \<lparr>ranges = replicate 720 (3 / 4),
         msg_circle_x = 11863283 / 2 ^ 37, msg_circle_y = 16777215 / 2 ^ 26\<rparr>
      = Inr ((Move 0 0.6 (example_state RIGHT True False True False))
               \<lparr>circle_x := 11863283 / 2 ^ 37, circle_y := 16777215 / 2 ^ 26,
                circle_hit_mode := False\<rparr>)
   \<and> LaserCallback GetMin_spec binary64 0 0 (example_state RIGHT True False True False)
        \<lparr>ranges = replicate 720 (3 / 4),
         msg_circle_x = 11863283 / 2 ^ 37, msg_circle_y = 16777215 / 2 ^ 26\<rparr>
      = Inr ((Move 0 0.6 (example_state RIGHT True False True False))
               \<lparr>circle_x := 11863283 / 2 ^ 37, circle_y := 16777215 / 2 ^ 26,
                circle_hit_mode := False\<rparr>)"
proof -
  have exact: "(3 / 4)\<^sup>2 > (11863283 / 2 ^ 37)\<^sup>2 + (16777215 / 2 ^ 26)\<^sup>2 + (0.5::real)"
    by (simp add: power2_eq_square)
  have near: "- 0.5 < (11863283 / 2 ^ 37 :: real)" "(11863283 / 2 ^ 37 :: real) < 0.5"
    "(16777215 / 2 ^ 26 :: real) < 1"
    by simp_all
  have nh: "\<not> circle_hit_mode (example_state RIGHT True False True False)"
    by (simp add: example_state_def)
  have b32: "False = (fgt (fl binary64 (3 / 4 * (3 / 4)))
        (fadd binary64
           (fadd binary32 (fl binary32 (11863283 / 2 ^ 37 * (11863283 / 2 ^ 37)))
                          (fl binary32 (16777215 / 2 ^ 26 * (16777215 / 2 ^ 26))))
           (Some 0.5))
      \<and> (11863283 / 2 ^ 37 :: real) > - 0.5 \<and> (11863283 / 2 ^ 37 :: real) < 0.5
      \<and> (16777215 / 2 ^ 26 :: real) < 1)"
    using edge_test_binary32 by (simp only: simp_thms)
  have b64: "False = (fgt (fl binary64 (3 / 4 * (3 / 4)))
        (fadd binary64
           (fadd binary64 (fl binary64 (11863283 / 2 ^ 37 * (11863283 / 2 ^ 37)))
                          (fl binary64 (16777215 / 2 ^ 26 * (16777215 / 2 ^ 26))))
           (Some 0.5))
      \<and> (11863283 / 2 ^ 37 :: real) > - 0.5 \<and> (11863283 / 2 ^ 37 :: real) < 0.5
      \<and> (16777215 / 2 ^ 26 :: real) < 1)"
    using edge_test_binary64 by (simp only: simp_thms)
  have v: "(1 / 2 :: real) \<le> 3 / 4"
    by simp
  from exact near nh cycle_equal_readings [OF v b32] cycle_equal_readings [OF v b64]
  show ?thesis
    by blast
qed

subsection \<open>Clearance\<close>

text \<open>
  C3. For all sector minima and every turn direction, \<open>CanContinue\<close> sets \<open>can_continue\<close> to
  true if and only if \<open>priority > high_security_distance\<close> and
  \<open>secondary > low_security_distance\<close>, where for \<open>RIGHT\<close> the priority is the smaller of
  centre and right and the secondary is left, for \<open>LEFT\<close> the priority is the smaller of
  centre and left and the secondary is right, and for \<open>NONE\<close> both are the least of the
  three.
\<close>

theorem CanContinue_iff:
  "can_continue (move_status (CanContinue rightMin leftMin centerMin st)) \<longleftrightarrow>
     (case turn_type (move_specs st) of
        RIGHT \<Rightarrow> min centerMin rightMin > high_security_distance (move_specs st)
                 \<and> leftMin > low_security_distance (move_specs st)
      | LEFT \<Rightarrow> min centerMin leftMin > high_security_distance (move_specs st)
                 \<and> rightMin > low_security_distance (move_specs st)
      | NONE \<Rightarrow> min rightMin (min leftMin centerMin) > high_security_distance (move_specs st)
                 \<and> min rightMin (min leftMin centerMin) > low_security_distance (move_specs st))"
  by (cases "turn_type (move_specs st)")
     (simp_all add: CanContinue_def Let_def Min3_def min_def)

text \<open>
  C9. For a fixed controller state (so a fixed turn direction and fixed thresholds), if
  \<open>CanContinue\<close> answers true on one triple of sector minima, it answers true on every
  triple that is at least as large in each of the three components.
\<close>

theorem CanContinue_mono:
  assumes "rightMin \<le> rightMin'" "leftMin \<le> leftMin'" "centerMin \<le> centerMin'"
    and "can_continue (move_status (CanContinue rightMin leftMin centerMin st))"
  shows "can_continue (move_status (CanContinue rightMin' leftMin' centerMin' st))"
  using assms
  by (cases "turn_type (move_specs st)")
     (auto simp add: CanContinue_def Let_def Min3_def min_def split: if_splits)

theorem CanContinue_mono_witness:
  "(1::real) \<le> 2 \<and> (1::real) \<le> 3 \<and> (1::real) \<le> 4
   \<and> can_continue (move_status (CanContinue 1 1 1 (example_state RIGHT False False True False)))
   \<and> can_continue (move_status (CanContinue 2 3 4 (example_state RIGHT False False True False)))"
proof -
  have h: "can_continue
      (move_status (CanContinue 1 1 1 (example_state RIGHT False False True False)))"
    by (simp add: CanContinue_def Let_def example_state_def example_specs_def)
  from CanContinue_mono [of 1 2 1 3 1 4, OF _ _ _ h] h show ?thesis
    by simp
qed

subsection \<open>Target approach\<close>

text \<open>
  C4, as the code has it. In a cycle that starts in hit mode with the turn direction \<open>RIGHT\<close> (resp. \<open>LEFT\<close>),
  let \<open>backValue = ranges[right_range.low_lim]\<close> and \<open>frontValue = ranges[90]\<close> (resp.
  \<open>ranges[left_range.high_lim]\<close> and \<open>ranges[630]\<close>), both indices inside the frame, and
  \<open>diff = frontValue - sin(PI / 3) * backValue\<close> with the source's \<open>PI = 3.14159265\<close>. If
  \<open>-0.05 \<le> diff \<le> 0.05\<close> (bounds included) the cycle publishes \<open>(linear_velocity, 0)\<close>; if
  \<open>diff > 0.05\<close> it is \<open>(0, - sign * angular_velocity / 4)\<close>; if \<open>diff < -0.05\<close> it is
  \<open>(0, sign * angular_velocity / 4)\<close>, the sign \<open>+1\<close> for \<open>LEFT\<close> and \<open>-1\<close> for \<open>RIGHT\<close>.
  In each case this one message is appended to what was published on \<open>cmd_vel\<close> and
  nothing else of the state changes.
\<close>

theorem target_approach_control:
  assumes "circle_hit_mode st"
    and "turn_type (move_specs st) = RIGHT
           \<and> 0 \<le> low_lim (right_range (move_specs st))
           \<and> low_lim (right_range (move_specs st)) < int (length (ranges msg))
           \<and> 90 < length (ranges msg)
           \<and> backValue = ranges msg ! nat (low_lim (right_range (move_specs st)))
           \<and> frontValue = ranges msg ! 90
         \<or> turn_type (move_specs st) = LEFT
           \<and> 0 \<le> high_lim (left_range (move_specs st))
           \<and> high_lim (left_range (move_specs st)) < int (length (ranges msg))
           \<and> 630 < length (ranges msg)
           \<and> backValue = ranges msg ! nat (high_lim (left_range (move_specs st)))
           \<and> frontValue = ranges msg ! 630"
    and "diff = frontValue - sin (PI / 3) * backValue"
    and "dir_sign = (case turn_type (move_specs st) of LEFT \<Rightarrow> 1 | NONE \<Rightarrow> 0 | RIGHT \<Rightarrow> - 1)"
  shows "(- 0.05 \<le> diff \<and> diff \<le> 0.05 \<longrightarrow>
            LaserCallback G fmt rnd mu st msg
              = Inr (st\<lparr>cmd_vel := cmd_vel st
                      @ [\<lparr>linear_x = linear_velocity (move_specs st), angular_z = 0\<rparr>]\<rparr>))
       \<and> (diff > 0.05 \<longrightarrow>
            LaserCallback G fmt rnd mu st msg
              = Inr (st\<lparr>cmd_vel := cmd_vel st
                      @ [\<lparr>linear_x = 0,
                          angular_z = - dir_sign * angular_velocity (move_specs st) / 4\<rparr>]\<rparr>))
       \<and> (diff < - 0.05 \<longrightarrow>
            LaserCallback G fmt rnd mu st msg
              = Inr (st\<lparr>cmd_vel := cmd_vel st
                      @ [\<lparr>linear_x = 0,
                          angular_z = dir_sign * angular_velocity (move_specs st) / 4\<rparr>]\<rparr>))"
proof -
  have cb: "LaserCallback G fmt rnd mu st msg = HitCircle (ranges msg) st"
    using assms(1) by (simp add: LaserCallback_def)
  from assms(2) show ?thesis
  proof (elim disjE conjE)
    assume t: "turn_type (move_specs st) = RIGHT"
      and "0 \<le> low_lim (right_range (move_specs st))"
      "low_lim (right_range (move_specs st)) < int (length (ranges msg))"
      "90 < length (ranges msg)"
      and v: "backValue = ranges msg ! nat (low_lim (right_range (move_specs st)))"
      "frontValue = ranges msg ! 90"
    then have "subscript (ranges msg) (low_lim (right_range (move_specs st))) = Inr backValue"
      "subscript (ranges msg) 90 = Inr frontValue"
      by (simp_all add: subscript_def)
    from HitCircle_RIGHT [OF t this] show ?thesis
      using assms(3,4) t by (simp add: cb Move_def)
  next
    assume t: "turn_type (move_specs st) = LEFT"
      and "0 \<le> high_lim (left_range (move_specs st))"
      "high_lim (left_range (move_specs st)) < int (length (ranges msg))"
      "630 < length (ranges msg)"
      and v: "backValue = ranges msg ! nat (high_lim (left_range (move_specs st)))"
      "frontValue = ranges msg ! 630"
    then have "subscript (ranges msg) (high_lim (left_range (move_specs st))) = Inr backValue"
      "subscript (ranges msg) 630 = Inr frontValue"
      by (simp_all add: subscript_def)
    from HitCircle_LEFT [OF t this] show ?thesis
      using assms(3,4) t by (simp add: cb Move_def)
  qed
qed

text \<open>
  Three cycles of the example configuration: scenario E of the spec (front 0.9, back 1,
  aligned), a frame of equal readings 2 (\<open>diff > 0.05\<close>, direction \<open>RIGHT\<close>), and a frame
  with front 1 and back 2 (\<open>diff < -0.05\<close>, direction \<open>LEFT\<close>).
\<close>

theorem target_approach_control_witness:
  "LaserCallback GetMin_spec binary32 0 0 (example_state RIGHT True False True True)
      \<lparr>ranges = (replicate 720 1)[90 := 0.9], msg_circle_x = - 10, msg_circle_y = - 10\<rparr>
     = Inr ((example_state RIGHT True False True True)\<lparr>cmd_vel := [\<lparr>linear_x = 0.3, angular_z = 0\<rparr>]\<rparr>)
   \<and> LaserCallback GetMin_spec binary32 0 0 (example_state RIGHT True False True True)
      \<lparr>ranges = replicate 720 2, msg_circle_x = - 10, msg_circle_y = - 10\<rparr>
     = Inr ((example_state RIGHT True False True True)\<lparr>cmd_vel := [\<lparr>linear_x = 0, angular_z = 0.15\<rparr>]\<rparr>)
   \<and> LaserCallback GetMin_spec binary32 0 0 (example_state LEFT True False True True)
      \<lparr>ranges = (replicate 720 2)[630 := 1], msg_circle_x = - 10, msg_circle_y = - 10\<rparr>
     = Inr ((example_state LEFT True False True True)\<lparr>cmd_vel := [\<lparr>linear_x = 0, angular_z = 0.15\<rparr>]\<rparr>)"
proof -
  let ?R = "example_state RIGHT True False True True"
  let ?L = "example_state LEFT True False True True"
  let ?m1 = "\<lparr>ranges = (replicate 720 1)[90 := 0.9], msg_circle_x = - 10, msg_circle_y = - 10\<rparr>"
  let ?m2 = "\<lparr>ranges = replicate 720 2, msg_circle_x = - 10, msg_circle_y = - 10\<rparr>"
  let ?m3 = "\<lparr>ranges = (replicate 720 2)[630 := 1], msg_circle_x = - 10, msg_circle_y = - 10\<rparr>"
  have hR: "circle_hit_mode ?R" and hL: "circle_hit_mode ?L"
    by (simp_all add: example_state_def)
  have d1: "- 0.05 \<le> 0.9 - sin (PI / 3) * 1 \<and> 0.9 - sin (PI / 3) * 1 \<le> 0.05"
    using sin_PI_3_coarse by simp
  have d2: "2 - sin (PI / 3) * 2 > 0.05"
    using sin_PI_3_coarse by simp
  have d3: "1 - sin (PI / 3) * 2 < - 0.05"
    using sin_PI_3_coarse by simp
  have 1: "LaserCallback GetMin_spec binary32 0 0 ?R ?m1
      = Inr (?R\<lparr>cmd_vel := [\<lparr>linear_x = 0.3, angular_z = 0\<rparr>]\<rparr>)"
    using d1 target_approach_control [where st = ?R and msg = ?m1
        and backValue = 1 and frontValue = "0.9", OF hR _ refl refl,
        where G = GetMin_spec and fmt = binary32 and rnd = 0 and mu = 0]
    by (simp add: example_state_def example_specs_def)
  have 2: "LaserCallback GetMin_spec binary32 0 0 ?R ?m2
      = Inr (?R\<lparr>cmd_vel := [\<lparr>linear_x = 0, angular_z = 0.15\<rparr>]\<rparr>)"
    using d2 target_approach_control [where st = ?R and msg = ?m2
        and backValue = 2 and frontValue = 2, OF hR _ refl refl,
        where G = GetMin_spec and fmt = binary32 and rnd = 0 and mu = 0]
    by (simp add: example_state_def example_specs_def)
  have 3: "LaserCallback GetMin_spec binary32 0 0 ?L ?m3
      = Inr (?L\<lparr>cmd_vel := [\<lparr>linear_x = 0, angular_z = 0.15\<rparr>]\<rparr>)"
    using d3 target_approach_control [where st = ?L and msg = ?m3
        and backValue = 2 and frontValue = 1, OF hL _ refl refl,
        where G = GetMin_spec and fmt = binary32 and rnd = 0 and mu = 0]
    by (simp add: example_state_def example_specs_def)
  from 1 2 3 show ?thesis by blast
qed

text \<open>
  With the sine of 60 degrees itself in \<open>diff\<close> the statement fails. Take back 3.75 and
  front \<open>13831117 / 4194304 = 3.297595262527466\<close>, both values of the type \<open>float\<close>. Then
  \<open>frontValue - sin(60 degrees) * backValue\<close> lies within \<open>[-0.05, 0.05]\<close>, so the command
  would be \<open>(linear_velocity, 0) = (0.3, 0)\<close>; the source computes a difference above 0.05
  and publishes \<open>(0, 0.15)\<close>.
\<close>

theorem target_approach_sin_60_counterexample:
  "- 0.05 \<le> 13831117 / 4194304 - sin (pi / 3) * 3.75
   \<and> 13831117 / 4194304 - sin (pi / 3) * 3.75 \<le> 0.05
   \<and> LaserCallback GetMin_spec binary32 0 0 (example_state RIGHT True False True True)
        \<lparr>ranges = (replicate 720 3.75)[90 := 13831117 / 4194304],
         msg_circle_x = - 10, msg_circle_y = - 10\<rparr>
      = Inr ((example_state RIGHT True False True True)\<lparr>cmd_vel := [\<lparr>linear_x = 0, angular_z = 0.15\<rparr>]\<rparr>)
   \<and> (\<lparr>linear_x = 0, angular_z = 0.15\<rparr> :: Twist) \<noteq> \<lparr>linear_x = 0.3, angular_z = 0\<rparr>"
proof -
  have "sqrt 3 \<le> (87 / 50 :: real)"
    by (rule real_le_lsqrt) (simp_all add: power2_eq_square)
  then have a: "- 0.05 \<le> 13831117 / 4194304 - sin (pi / 3) * 3.75"
    by (simp add: sin_60)
  have b: "13831117 / 4194304 - sin (pi / 3) * 3.75 \<le> 0.05"
    using sin_60_lower by simp
  let ?st = "example_state RIGHT True False True True"
  let ?rs = "(replicate 720 (3.75::real))[90 := 13831117 / 4194304]"
  have t: "turn_type (move_specs ?st) = RIGHT"
    by (simp add: example_state_def example_specs_def)
  have r1: "subscript ?rs (low_lim (right_range (move_specs ?st))) = Inr 3.75"
    by (simp add: subscript_def example_state_def example_specs_def)
  have r2: "subscript ?rs 90 = Inr (13831117 / 4194304)"
    by (simp add: subscript_def)
  have c: "LaserCallback GetMin_spec binary32 0 0 ?st
        \<lparr>ranges = ?rs, msg_circle_x = - 10, msg_circle_y = - 10\<rparr>
      = Inr (?st\<lparr>cmd_vel := [\<lparr>linear_x = 0, angular_z = 0.15\<rparr>]\<rparr>)"
    using sin_PI_3_bounds HitCircle_RIGHT [OF t r1 r2]
    by (simp add: LaserCallback_def Move_def example_state_def example_specs_def)
  have d: "(\<lparr>linear_x = 0, angular_z = 0.15\<rparr> :: Twist) \<noteq> \<lparr>linear_x = 0.3, angular_z = 0\<rparr>"
    by simp
  from a b c d show ?thesis
    by blast
qed

subsection \<open>Start of a wall-follow episode\<close>

text \<open>
  C6. Whenever \<open>can_continue\<close> and \<open>is_following_wall\<close> are both false, \<open>WallFollowMove\<close>
  sets \<open>is_following_wall\<close> to true, sets the turn direction to \<open>LEFT\<close> or to \<open>RIGHT\<close> (never
  \<open>NONE\<close>), and publishes no velocity command.
\<close>

theorem blocked_path_episode_start:
  assumes "\<not> can_continue (move_status st)" "\<not> is_following_wall (move_status st)"
  shows "is_following_wall (move_status (WallFollowMove rnd st))
     \<and> turn_type (move_specs (WallFollowMove rnd st)) \<in> {LEFT, RIGHT}
     \<and> cmd_vel (WallFollowMove rnd st) = cmd_vel st"
  using assms by (simp add: WallFollowMove_def Let_def)

text \<open>Scenario A of the spec, with an even and an odd draw.\<close>

theorem blocked_path_episode_start_witness:
  "\<not> can_continue (move_status (example_state NONE False False False False))
   \<and> \<not> is_following_wall (move_status (example_state NONE False False False False))
   \<and> is_following_wall
        (move_status (WallFollowMove 4 (example_state NONE False False False False)))
   \<and> turn_type (move_specs (WallFollowMove 4 (example_state NONE False False False False)))
        = RIGHT
   \<and> turn_type (move_specs (WallFollowMove 7 (example_state NONE False False False False)))
        = LEFT
   \<and> cmd_vel (WallFollowMove 4 (example_state NONE False False False False)) = []"
  using blocked_path_episode_start [of "example_state NONE False False False False" 4]
    blocked_path_episode_start [of "example_state NONE False False False False" 7]
  by (simp add: example_state_def example_specs_def WallFollowMove_def Let_def)

subsection \<open>The mode flag never goes back\<close>

text \<open>
  C5. For every sequence of cycles: once the mode flag is true after some prefix of the
  sequence, it is true after every longer prefix. (A run that meets an unchecked read has
  no state afterwards; the statement is about the runs that have one.)
\<close>

theorem hit_mode_monotonic:
  assumes "run G fmt st cs = Inr st1" "circle_hit_mode st1" "run G fmt st (cs @ cs') = Inr st2"
  shows "circle_hit_mode st2"
proof -
  from assms(1,3) have "run G fmt st1 cs' = Inr st2"
    by (simp add: run_append)
  with assms(2) show ?thesis
    by (rule run_hit_mode)
qed

text \<open>Scenario F switches the mode; a later cycle without a target leaves it switched.\<close>

theorem hit_mode_monotonic_witness:
  "run GetMin_spec binary32 (example_state RIGHT True False True False)
       [(\<lparr>ranges = replicate 720 2, msg_circle_x = 0, msg_circle_y = 0.5\<rparr>, 0, 0)]
     = Inr ((Move 0 0.6 (example_state RIGHT True False True False))
              \<lparr>circle_x := 0, circle_y := 0.5, circle_hit_mode := True\<rparr>)
   \<and> run GetMin_spec binary32 (example_state RIGHT True False True False)
       ([(\<lparr>ranges = replicate 720 2, msg_circle_x = 0, msg_circle_y = 0.5\<rparr>, 0, 0)]
        @ [(\<lparr>ranges = replicate 720 2, msg_circle_x = - 10, msg_circle_y = - 10\<rparr>, 0, 0)])
     = Inr (Move 0 0.15 ((Move 0 0.6 (example_state RIGHT True False True False))
              \<lparr>circle_x := 0, circle_y := 0.5, circle_hit_mode := True\<rparr>))
   \<and> circle_hit_mode (Move 0 0.15 ((Move 0 0.6 (example_state RIGHT True False True False))
              \<lparr>circle_x := 0, circle_y := 0.5, circle_hit_mode := True\<rparr>))"
proof -
  let ?s0 = "example_state RIGHT True False True False"
  let ?c1 = "(\<lparr>ranges = replicate 720 2, msg_circle_x = 0, msg_circle_y = 0.5\<rparr>, 0::nat, 0::real)"
  let ?c2 = "(\<lparr>ranges = replicate 720 2, msg_circle_x = - 10, msg_circle_y = - 10\<rparr>, 0::nat, 0::real)"
  let ?s1 = "(Move 0 0.6 ?s0)\<lparr>circle_x := 0, circle_y := 0.5, circle_hit_mode := True\<rparr>"
  have r1: "run GetMin_spec binary32 ?s0 [?c1] = Inr ?s1"
    by (simp only: run.simps cycle_scenario_F sum.case)
  have h1: "circle_hit_mode ?s1"
    by simp
  have "move_specs ?s1 = example_specs RIGHT"
    by (simp add: Move_def example_state_def)
  from cycle_hit_far [OF h1 this]
  have r2: "run GetMin_spec binary32 ?s0 ([?c1] @ [?c2]) = Inr (Move 0 0.15 ?s1)"
    by (simp only: append.simps run.simps cycle_scenario_F sum.case)
  from hit_mode_monotonic [OF r1 h1 r2] r1 r2 show ?thesis
    by simp
qed

subsection \<open>Frames that are too short\<close>

text \<open>
  C7. The source has no bounds check: on a frame that is too short for a fixed index the
  cycle does not fail with an error and skip its command, it reads outside the vector.
  With the example configuration this is so for a frame of 380 readings and the direction
  \<open>RIGHT\<close> (\<open>ranges[380]\<close>), a frame of 340 readings and \<open>LEFT\<close> (\<open>ranges[340]\<close>), and, in hit
  mode, a frame of 90 readings and \<open>RIGHT\<close> (\<open>ranges[90]\<close>) and a frame of 640 readings and
  \<open>LEFT\<close> (index 630 is inside, the window bound 660 is not).
\<close>

theorem undersized_frame_reaches_unchecked_read:
  "LaserCallback GetMin_spec binary32 0 0 (example_state RIGHT True False True False)
      \<lparr>ranges = replicate 380 2, msg_circle_x = - 10, msg_circle_y = - 10\<rparr> = Inl UncheckedRead
   \<and> LaserCallback GetMin_spec binary32 0 0 (example_state LEFT True False True False)
      \<lparr>ranges = replicate 340 2, msg_circle_x = - 10, msg_circle_y = - 10\<rparr> = Inl UncheckedRead
   \<and> LaserCallback GetMin_spec binary32 0 0 (example_state RIGHT True False True True)
      \<lparr>ranges = replicate 90 2, msg_circle_x = - 10, msg_circle_y = - 10\<rparr> = Inl UncheckedRead
   \<and> LaserCallback GetMin_spec binary32 0 0 (example_state LEFT True False True True)
      \<lparr>ranges = replicate 640 2, msg_circle_x = - 10, msg_circle_y = - 10\<rparr> = Inl UncheckedRead"
  using undersized_frame_unchecked_read [where st = "example_state RIGHT True False True False"
      and msg = "\<lparr>ranges = replicate 380 2, msg_circle_x = - 10, msg_circle_y = - 10\<rparr>"
      and G = GetMin_spec and fmt = binary32 and rnd = 0 and mu = 0]
    undersized_frame_unchecked_read [where st = "example_state LEFT True False True False"
      and msg = "\<lparr>ranges = replicate 340 2, msg_circle_x = - 10, msg_circle_y = - 10\<rparr>"
      and G = GetMin_spec and fmt = binary32 and rnd = 0 and mu = 0]
    undersized_frame_unchecked_read [where st = "example_state RIGHT True False True True"
      and msg = "\<lparr>ranges = replicate 90 2, msg_circle_x = - 10, msg_circle_y = - 10\<rparr>"
      and G = GetMin_spec and fmt = binary32 and rnd = 0 and mu = 0]
    undersized_frame_unchecked_read [where st = "example_state LEFT True False True True"
      and msg = "\<lparr>ranges = replicate 640 2, msg_circle_x = - 10, msg_circle_y = - 10\<rparr>"
      and G = GetMin_spec and fmt = binary32 and rnd = 0 and mu = 0]
  by (simp add: example_state_def example_specs_def)

subsection \<open>Wall proximity\<close>




subsection \<open>Routing of the switching cycle\<close>

text \<open>
  C10. A cycle that starts with the mode flag false is served by the wall-follow path even
  when the flag becomes true in it: its result is that of \<open>NormalMovement\<close> followed by
  \<open>WallFollowMove\<close> on the state with the new target, and only the flag differs. \<open>HitCircle\<close>
  serves exactly the cycles that start with the flag already true.
\<close>

theorem switching_cycle_routing:
  "LaserCallback G fmt rnd mu st msg =
     (if circle_hit_mode st then HitCircle (ranges msg) st
      else
        (let st1 = st\<lparr>circle_x := msg_circle_x msg, circle_y := msg_circle_y msg\<rparr> in
         case (case turn_type (move_specs st) of
                 RIGHT \<Rightarrow> subscript (ranges msg) 380
               | LEFT \<Rightarrow> subscript (ranges msg) 340
               | NONE \<Rightarrow> Inr 1) of
           Inl f \<Rightarrow> Inl f
         | Inr wall \<Rightarrow>
             (case NormalMovement G mu (ranges msg) st1 of
                Inl f \<Rightarrow> Inl f
              | Inr st3 \<Rightarrow>
                  Inr ((WallFollowMove rnd st3)
                        \<lparr>circle_hit_mode :=
                           (fgt (fl binary64 (wall * wall))
                              (fadd binary64
                                 (fadd fmt (fl fmt (msg_circle_x msg * msg_circle_x msg))
                                           (fl fmt (msg_circle_y msg * msg_circle_y msg)))
                                 (Some 0.5))
                            \<and> msg_circle_x msg > - 0.5 \<and> msg_circle_x msg < 0.5
                            \<and> msg_circle_y msg < 1)\<rparr>))))"
proof (cases "circle_hit_mode st")
  case True
  then show ?thesis
    by (simp add: LaserCallback_def)
next
  case False
  show ?thesis
    unfolding Let_def
    by (simp only: False if_False) (rule LaserCallback_not_hit [OF False])
qed

end
